theory Spec2Isabelle
  imports Main
begin

section \<open>PropertyHub: search filters, favourites and detail lookup\<close>

text \<open>
  A shallow embedding of the logic of the PropertyHub front end: the filter pipeline
  \<open>handleSearch\<close> and the favourites handlers of the \<open>Index\<close> page, the form handler
  \<open>handleFilterChange\<close> of \<open>SearchForm\<close>, and the lookup and favourites handler of
  the \<open>PropertyDetail\<close> page. React state is passed explicitly; \<open>localStorage\<close> is a
  map from keys to strings.
\<close>

subsection \<open>JavaScript values\<close>

text \<open>
  A JavaScript number, as far as this program produces one: an integer (from
  \<open>parseInt\<close> or from the JSON catalog) or \<open>NaN\<close>. Integers are unbounded here; the
  program's own are far below \<open>2 ^ 53\<close>, where a double is exact.
\<close>

datatype jsnum = Num int | NaN

text \<open>Truthiness, as \<open>if (v)\<close> and \<open>v || undefined\<close> test it.\<close>

fun truthy_num :: "jsnum \<Rightarrow> bool" where
  "truthy_num (Num n) = (n \<noteq> 0)"
| "truthy_num NaN = False"

definition truthy_str :: "string \<Rightarrow> bool" where
  "truthy_str s = (s \<noteq> [])"

text \<open>\<open>a >= b\<close>, \<open>a <= b\<close> and \<open>a === b\<close> on numbers: every comparison with \<open>NaN\<close> is false.\<close>

fun js_ge :: "jsnum \<Rightarrow> jsnum \<Rightarrow> bool" where
  "js_ge (Num a) (Num b) = (a \<ge> b)"
| "js_ge _ _ = False"

fun js_le :: "jsnum \<Rightarrow> jsnum \<Rightarrow> bool" where
  "js_le (Num a) (Num b) = (a \<le> b)"
| "js_le _ _ = False"

fun js_eq :: "jsnum \<Rightarrow> jsnum \<Rightarrow> bool" where
  "js_eq (Num a) (Num b) = (a = b)"
| "js_eq _ _ = False"

subsection \<open>Strings\<close>

text \<open>
  Strings are byte lists. \<open>toLowerCase\<close> is modelled on the ASCII letters (postcodes
  and the other texts of the catalog are ASCII); other bytes are left as they are.
\<close>

definition lower_char :: "char \<Rightarrow> char" where
  "lower_char c =
     (let n = (of_char c :: nat) in if 65 \<le> n \<and> n \<le> 90 then char_of (n + 32) else c)"

definition toLowerCase :: "string \<Rightarrow> string" where
  "toLowerCase s = map lower_char s"

fun starts_with :: "string \<Rightarrow> string \<Rightarrow> bool" where
  "starts_with s [] = True"
| "starts_with [] (n # ns) = False"
| "starts_with (c # cs) (n # ns) = (c = n \<and> starts_with cs ns)"

text \<open>\<open>s.includes(n)\<close>: \<open>n\<close> occurs in \<open>s\<close> as a contiguous substring.\<close>

fun includes_str :: "string \<Rightarrow> string \<Rightarrow> bool" where
  "includes_str [] n = (n = [])"
| "includes_str (c # cs) n = (starts_with (c # cs) n \<or> includes_str cs n)"

subsection \<open>\<open>parseInt\<close>\<close>

text \<open>
  \<open>parseInt(s)\<close> with no radix: leading white space is skipped, then an optional
  sign, then an optional \<open>0x\<close>/\<open>0X\<close> prefix (radix 16, otherwise 10), then the longest
  run of digits of the radix; no digit gives \<open>NaN\<close>. White space is the ASCII part of
  the language's white space. Minus zero is zero: the program only tests truthiness
  and \<open>===\<close>, which do not tell them apart.
\<close>

definition is_space :: "char \<Rightarrow> bool" where
  "is_space c = (c \<in> set [CHR 0x09, CHR 0x0A, CHR 0x0B, CHR 0x0C, CHR 0x0D, CHR 0x20])"

definition digit_value :: "char \<Rightarrow> nat" where
  "digit_value c =
     (let n = (of_char c :: nat)
      in if 48 \<le> n \<and> n \<le> 57 then n - 48
         else if 97 \<le> n \<and> n \<le> 122 then n - 87
         else if 65 \<le> n \<and> n \<le> 90 then n - 55
         else 36)"

definition is_digit :: "nat \<Rightarrow> char \<Rightarrow> bool" where
  "is_digit radix c = (digit_value c < radix)"

definition digits_value :: "nat \<Rightarrow> string \<Rightarrow> nat" where
  "digits_value radix z = foldl (\<lambda>a c. a * radix + digit_value c) 0 z"

definition strip_sign :: "string \<Rightarrow> bool \<times> string" where
  "strip_sign s =
     (case s of
        [] \<Rightarrow> (False, [])
      | c # r \<Rightarrow> if c = CHR ''-'' then (True, r)
                 else if c = CHR ''+'' then (False, r)
                 else (False, s))"

definition strip_hex_prefix :: "string \<Rightarrow> nat \<times> string" where
  "strip_hex_prefix s =
     (case s of
        c0 # c1 # r \<Rightarrow>
          if c0 = CHR ''0'' \<and> (c1 = CHR ''x'' \<or> c1 = CHR ''X'') then (16, r) else (10, s)
      | _ \<Rightarrow> (10, s))"

definition parseInt :: "string \<Rightarrow> jsnum" where
  "parseInt str =
     (let (neg, s1) = strip_sign (dropWhile is_space str);
          (radix, s2) = strip_hex_prefix s1;
          z = takeWhile (is_digit radix) s2
      in if z = [] then NaN
         else Num ((if neg then - 1 else 1) * int (digits_value radix z)))"

subsection \<open>The data model (\<open>types/Property.ts\<close>)\<close>

text \<open>
  The fields \<open>id\<close> and \<open>type\<close> of \<open>Property\<close> are \<open>id'\<close> and \<open>type'\<close> here, and the
  field \<open>type\<close> of \<open>SearchFilters\<close> is \<open>type_f\<close>. An optional field is an \<open>option\<close>:
  \<open>None\<close> is \<open>undefined\<close>.
\<close>

record Property =
  id' :: int
  type' :: string
  bedrooms :: int
  price :: int
  location :: string
  description :: string
  added :: string
  picture :: string
  images :: "string list"
  url :: string
  tenure :: string
  postcode :: string

record SearchFilters =
  type_f :: "string option"
  minPrice :: "jsnum option"
  maxPrice :: "jsnum option"
  minBedrooms :: "jsnum option"
  maxBedrooms :: "jsnum option"
  postcodeArea :: "string option"
  dateFrom :: "string option"
  dateTo :: "string option"

text \<open>The initial form state \<open>{}\<close>: no field set.\<close>

definition no_filters :: SearchFilters where
  "no_filters =
     \<lparr>type_f = None, minPrice = None, maxPrice = None, minBedrooms = None,
      maxBedrooms = None, postcodeArea = None, dateFrom = None, dateTo = None\<rparr>"

subsection \<open>Dates\<close>

text \<open>
  \<open>new Date(s)\<close> as its time value: milliseconds since the epoch, or \<open>NaN\<close> for an
  Invalid Date. The catalog's \<open>added\<close> and the value of a date input are date-only
  ISO strings \<open>YYYY-MM-DD\<close>, read as UTC midnight; the forms \<open>YYYY\<close> and \<open>YYYY-MM\<close>
  are read likewise. What an engine does with any other text (and with a day beyond the
  length of its month) is its own choice; it is an Invalid Date here.
\<close>

definition all_digits :: "string \<Rightarrow> bool" where
  "all_digits s = list_all (is_digit 10) s"

definition is_leap :: "int \<Rightarrow> bool" where
  "is_leap y = (y mod 4 = 0 \<and> (y mod 100 \<noteq> 0 \<or> y mod 400 = 0))"

definition days_in_month :: "int \<Rightarrow> int \<Rightarrow> int" where
  "days_in_month y m =
     (if m = 2 then (if is_leap y then 29 else 28)
      else if m \<in> set [4, 6, 9, 11] then 30 else 31)"

text \<open>Days from 1970-01-01 to the given day of the proleptic Gregorian calendar.\<close>

definition days_from_civil :: "int \<Rightarrow> int \<Rightarrow> int \<Rightarrow> int" where
  "days_from_civil y m d =
     (let y1 = (if m \<le> 2 then y - 1 else y);
          era = y1 div 400;
          yoe = y1 - era * 400;
          doy = (153 * (if m > 2 then m - 3 else m + 9) + 2) div 5 + d - 1;
          doe = yoe * 365 + yoe div 4 - yoe div 100 + doy
      in era * 146097 + doe - 719468)"

definition make_date :: "int \<Rightarrow> int \<Rightarrow> int \<Rightarrow> jsnum" where
  "make_date y m d =
     (if 1 \<le> m \<and> m \<le> 12 \<and> 1 \<le> d \<and> d \<le> days_in_month y m
      then Num (days_from_civil y m d * 86400000) else NaN)"

definition Date_value :: "string \<Rightarrow> jsnum" where
  "Date_value s =
     (if length s = 4 \<and> all_digits s then make_date (int (digits_value 10 s)) 1 1
      else if length s = 7 \<and> all_digits (take 4 s) \<and> s ! 4 = CHR ''-''
              \<and> all_digits (drop 5 s)
        then make_date (int (digits_value 10 (take 4 s))) (int (digits_value 10 (drop 5 s))) 1
      else if length s = 10 \<and> all_digits (take 4 s) \<and> s ! 4 = CHR ''-''
              \<and> all_digits (take 2 (drop 5 s)) \<and> s ! 7 = CHR ''-'' \<and> all_digits (drop 8 s)
        then make_date (int (digits_value 10 (take 4 s)))
               (int (digits_value 10 (take 2 (drop 5 s)))) (int (digits_value 10 (drop 8 s)))
      else NaN)"

subsection \<open>The search form (\<open>SearchForm.tsx\<close>)\<close>

text \<open>
  A call \<open>handleFilterChange(key, value)\<close>, with the value of the type the interface
  gives the key. The number inputs pass \<open>parseInt(e.target.value)\<close>, the selects of the
  bedrooms \<open>parseInt(value)\<close>, the others the text itself.
\<close>

datatype filter_change =
    Type string
  | MinPrice jsnum
  | MaxPrice jsnum
  | MinBedrooms jsnum
  | MaxBedrooms jsnum
  | PostcodeArea string
  | DateFrom string
  | DateTo string

text \<open>\<open>value || undefined\<close>.\<close>

definition num_or_undefined :: "jsnum \<Rightarrow> jsnum option" where
  "num_or_undefined v = (if truthy_num v then Some v else None)"

definition str_or_undefined :: "string \<Rightarrow> string option" where
  "str_or_undefined v = (if truthy_str v then Some v else None)"

fun handleFilterChange :: "filter_change \<Rightarrow> SearchFilters \<Rightarrow> SearchFilters" where
  "handleFilterChange (Type v) prev = prev\<lparr>type_f := str_or_undefined v\<rparr>"
| "handleFilterChange (MinPrice v) prev = prev\<lparr>minPrice := num_or_undefined v\<rparr>"
| "handleFilterChange (MaxPrice v) prev = prev\<lparr>maxPrice := num_or_undefined v\<rparr>"
| "handleFilterChange (MinBedrooms v) prev = prev\<lparr>minBedrooms := num_or_undefined v\<rparr>"
| "handleFilterChange (MaxBedrooms v) prev = prev\<lparr>maxBedrooms := num_or_undefined v\<rparr>"
| "handleFilterChange (PostcodeArea v) prev = prev\<lparr>postcodeArea := str_or_undefined v\<rparr>"
| "handleFilterChange (DateFrom v) prev = prev\<lparr>dateFrom := str_or_undefined v\<rparr>"
| "handleFilterChange (DateTo v) prev = prev\<lparr>dateTo := str_or_undefined v\<rparr>"

subsection \<open>The filter pipeline (\<open>handleSearch\<close> of \<open>Index\<close>)\<close>

text \<open>
  Each \<open>if\<close> block of \<open>handleSearch\<close> is one function from the current \<open>filtered\<close> to
  the next; the guard of a block is the truthiness of the field.
\<close>

definition filter_type :: "SearchFilters \<Rightarrow> Property list \<Rightarrow> Property list" where
  "filter_type filters filtered =
     (case type_f filters of
        None \<Rightarrow> filtered
      | Some t \<Rightarrow>
          if truthy_str t \<and> t \<noteq> ''Any''
          then filter (\<lambda>property. type' property = t) filtered else filtered)"

definition filter_minPrice :: "SearchFilters \<Rightarrow> Property list \<Rightarrow> Property list" where
  "filter_minPrice filters filtered =
     (case minPrice filters of
        None \<Rightarrow> filtered
      | Some v \<Rightarrow>
          if truthy_num v
          then filter (\<lambda>property. js_ge (Num (price property)) v) filtered else filtered)"

definition filter_maxPrice :: "SearchFilters \<Rightarrow> Property list \<Rightarrow> Property list" where
  "filter_maxPrice filters filtered =
     (case maxPrice filters of
        None \<Rightarrow> filtered
      | Some v \<Rightarrow>
          if truthy_num v
          then filter (\<lambda>property. js_le (Num (price property)) v) filtered else filtered)"

definition filter_minBedrooms :: "SearchFilters \<Rightarrow> Property list \<Rightarrow> Property list" where
  "filter_minBedrooms filters filtered =
     (case minBedrooms filters of
        None \<Rightarrow> filtered
      | Some v \<Rightarrow>
          if truthy_num v
          then filter (\<lambda>property. js_ge (Num (bedrooms property)) v) filtered else filtered)"

definition filter_maxBedrooms :: "SearchFilters \<Rightarrow> Property list \<Rightarrow> Property list" where
  "filter_maxBedrooms filters filtered =
     (case maxBedrooms filters of
        None \<Rightarrow> filtered
      | Some v \<Rightarrow>
          if truthy_num v
          then filter (\<lambda>property. js_le (Num (bedrooms property)) v) filtered else filtered)"

definition filter_postcodeArea :: "SearchFilters \<Rightarrow> Property list \<Rightarrow> Property list" where
  "filter_postcodeArea filters filtered =
     (case postcodeArea filters of
        None \<Rightarrow> filtered
      | Some a \<Rightarrow>
          if truthy_str a
          then filter (\<lambda>property.
                 includes_str (toLowerCase (postcode property)) (toLowerCase a)) filtered
          else filtered)"

definition filter_dateFrom :: "SearchFilters \<Rightarrow> Property list \<Rightarrow> Property list" where
  "filter_dateFrom filters filtered =
     (case dateFrom filters of
        None \<Rightarrow> filtered
      | Some d \<Rightarrow>
          if truthy_str d
          then filter (\<lambda>property. js_ge (Date_value (added property)) (Date_value d)) filtered
          else filtered)"

definition filter_dateTo :: "SearchFilters \<Rightarrow> Property list \<Rightarrow> Property list" where
  "filter_dateTo filters filtered =
     (case dateTo filters of
        None \<Rightarrow> filtered
      | Some d \<Rightarrow>
          if truthy_str d
          then filter (\<lambda>property. js_le (Date_value (added property)) (Date_value d)) filtered
          else filtered)"

text \<open>
  The value of \<open>filtered\<close> that \<open>handleSearch(filters)\<close> passes to
  \<open>setFilteredProperties\<close>, from the catalog \<open>properties\<close>.
\<close>

definition applyFilters :: "Property list \<Rightarrow> SearchFilters \<Rightarrow> Property list" where
  "applyFilters properties filters =
     (let filtered = properties;
          filtered = filter_type filters filtered;
          filtered = filter_minPrice filters filtered;
          filtered = filter_maxPrice filters filtered;
          filtered = filter_minBedrooms filters filtered;
          filtered = filter_maxBedrooms filters filtered;
          filtered = filter_postcodeArea filters filtered;
          filtered = filter_dateFrom filters filtered;
          filtered = filter_dateTo filters filtered
      in filtered)"

subsection \<open>JSON\<close>

text \<open>
  \<open>JSON.stringify\<close> and \<open>JSON.parse\<close>. A JSON value is kept as its tree; a number
  keeps its text (its double is not computed), a string is its bytes, and an object
  keeps its members in order of appearance. \<open>JSON.parse\<close> throws \<open>SyntaxError\<close> on a
  text that is not JSON; that is the only exception of this program.
\<close>

datatype error = SyntaxError

datatype json =
    JNull
  | JBool bool
  | JNumber string
  | JString string
  | JArray "json list"
  | JObject "(string \<times> json) list"

definition hex_digit :: "nat \<Rightarrow> char" where
  "hex_digit n = (if n < 10 then char_of (48 + n) else char_of (87 + n))"

definition escape_char :: "char \<Rightarrow> string" where
  "escape_char c =
     (let n = (of_char c :: nat)
      in if c = CHR 0x22 then [CHR 0x5C, CHR 0x22]
         else if c = CHR 0x5C then [CHR 0x5C, CHR 0x5C]
         else if n = 8 then [CHR 0x5C, CHR ''b'']
         else if n = 12 then [CHR 0x5C, CHR ''f'']
         else if n = 10 then [CHR 0x5C, CHR ''n'']
         else if n = 13 then [CHR 0x5C, CHR ''r'']
         else if n = 9 then [CHR 0x5C, CHR ''t'']
         else if n < 32 then [CHR 0x5C, CHR ''u'', CHR ''0'', CHR ''0'', hex_digit (n div 16), hex_digit (n mod 16)]
         else [c])"

definition quote :: "string \<Rightarrow> string" where
  "quote s = CHR 0x22 # concat (map escape_char s) @ [CHR 0x22]"

fun join :: "string \<Rightarrow> string list \<Rightarrow> string" where
  "join sep [] = []"
| "join sep [x] = x"
| "join sep (x # y # ys) = x @ sep @ join sep (y # ys)"

fun JSON_stringify :: "json \<Rightarrow> string" where
  "JSON_stringify JNull = ''null''"
| "JSON_stringify (JBool b) = (if b then ''true'' else ''false'')"
| "JSON_stringify (JNumber l) = l"
| "JSON_stringify (JString s) = quote s"
| "JSON_stringify (JArray xs) = ''['' @ join '','' (map JSON_stringify xs) @ '']''"
| "JSON_stringify (JObject ms) =
     ''{'' @ join '','' (map (\<lambda>(k, v). quote k @ '':'' @ JSON_stringify v) ms) @ ''}''"

fun string_of_nat :: "nat \<Rightarrow> string" where
  "string_of_nat n =
     (if n < 10 then [char_of (48 + n)]
      else string_of_nat (n div 10) @ [char_of (48 + n mod 10)])"

definition string_of_int :: "int \<Rightarrow> string" where
  "string_of_int i = (if i < 0 then CHR ''-'' # string_of_nat (nat (- i)) else string_of_nat (nat i))"


text \<open>
  Reading a JSON text: first the tokens, then the values, with a stack of the arrays and
  objects that are open. An escape \<open>\uXXXX\<close> is stored as the UTF-8 bytes of its code
  unit.
\<close>

datatype token =
    LBrace | RBrace | LBrack | RBrack | Colon | Comma
  | TStr string | TNum string | TTrue | TFalse | TNull

definition is_json_space :: "char \<Rightarrow> bool" where
  "is_json_space c = (c \<in> set [CHR 0x20, CHR 0x09, CHR 0x0A, CHR 0x0D])"

definition is_dec :: "char \<Rightarrow> bool" where
  "is_dec c = (let n = (of_char c :: nat) in 48 \<le> n \<and> n \<le> 57)"

definition hex_value :: "char \<Rightarrow> nat option" where
  "hex_value c =
     (let n = (of_char c :: nat)
      in if 48 \<le> n \<and> n \<le> 57 then Some (n - 48)
         else if 97 \<le> n \<and> n \<le> 102 then Some (n - 87)
         else if 65 \<le> n \<and> n \<le> 70 then Some (n - 55)
         else None)"

fun hex4 :: "string \<Rightarrow> nat option" where
  "hex4 [a, b, c, d] =
     (case (hex_value a, hex_value b, hex_value c, hex_value d) of
        (Some x, Some y, Some z, Some w) \<Rightarrow> Some (((x * 16 + y) * 16 + z) * 16 + w)
      | _ \<Rightarrow> None)"
| "hex4 _ = None"

definition utf8 :: "nat \<Rightarrow> string" where
  "utf8 n =
     (if n < 128 then [char_of n]
      else if n < 2048 then [char_of (192 + n div 64), char_of (128 + n mod 64)]
      else [char_of (224 + n div 4096), char_of (128 + n div 64 mod 64), char_of (128 + n mod 64)])"

definition unescape :: "char \<Rightarrow> char option" where
  "unescape e =
     (if e = CHR 0x22 \<or> e = CHR 0x5C \<or> e = CHR ''/'' then Some e
      else if e = CHR ''b'' then Some (CHR 0x08)
      else if e = CHR ''f'' then Some (CHR 0x0C)
      else if e = CHR ''n'' then Some (CHR 0x0A)
      else if e = CHR ''r'' then Some (CHR 0x0D)
      else if e = CHR ''t'' then Some (CHR 0x09)
      else None)"

fun lex_string :: "string \<Rightarrow> string \<Rightarrow> error + string \<times> string" where
  "lex_string acc [] = Inl SyntaxError"
| "lex_string acc (c # cs) =
     (if c = CHR 0x22 then Inr (rev acc, cs)
      else if c = CHR 0x5C then
        (case cs of
           [] \<Rightarrow> Inl SyntaxError
         | e # r \<Rightarrow>
             if e = CHR ''u'' then
               (case hex4 (take 4 r) of
                  None \<Rightarrow> Inl SyntaxError
                | Some n \<Rightarrow> lex_string (rev (utf8 n) @ acc) (drop 4 r))
             else
               (case unescape e of
                  None \<Rightarrow> Inl SyntaxError
                | Some ch \<Rightarrow> lex_string (ch # acc) r))
      else if (of_char c :: nat) < 32 then Inl SyntaxError
      else lex_string (c # acc) cs)"

definition lex_digits :: "string \<Rightarrow> error + string \<times> string" where
  "lex_digits cs =
     (if takeWhile is_dec cs = [] then Inl SyntaxError
      else Inr (takeWhile is_dec cs, dropWhile is_dec cs))"

definition lex_int :: "string \<Rightarrow> error + string \<times> string" where
  "lex_int cs =
     (case cs of
        [] \<Rightarrow> Inl SyntaxError
      | d # r \<Rightarrow> if d = CHR ''0'' then Inr (''0'', r) else lex_digits cs)"

definition lex_frac :: "string \<Rightarrow> error + string \<times> string" where
  "lex_frac cs =
     (case cs of
        [] \<Rightarrow> Inr ([], cs)
      | d # r \<Rightarrow>
          if d = CHR ''.'' then
            (case lex_digits r of Inl e \<Rightarrow> Inl e | Inr (ds, r') \<Rightarrow> Inr (d # ds, r'))
          else Inr ([], cs))"

definition lex_sign :: "string \<Rightarrow> string \<times> string" where
  "lex_sign cs =
     (case cs of
        [] \<Rightarrow> ([], cs)
      | s # r \<Rightarrow> if s = CHR ''+'' \<or> s = CHR ''-'' then ([s], r) else ([], cs))"

definition lex_exp :: "string \<Rightarrow> error + string \<times> string" where
  "lex_exp cs =
     (case cs of
        [] \<Rightarrow> Inr ([], cs)
      | e # r \<Rightarrow>
          if e = CHR ''e'' \<or> e = CHR ''E'' then
            (case lex_digits (snd (lex_sign r)) of
               Inl err \<Rightarrow> Inl err
             | Inr (ds, r') \<Rightarrow> Inr (e # fst (lex_sign r) @ ds, r'))
          else Inr ([], cs))"

definition lex_number :: "string \<Rightarrow> error + string \<times> string" where
  "lex_number cs =
     (let (sg, r0) = (case cs of [] \<Rightarrow> ([], cs)
                      | s # r \<Rightarrow> if s = CHR ''-'' then ([s], r) else ([], cs))
      in case lex_int r0 of
           Inl e \<Rightarrow> Inl e
         | Inr (ip, r1) \<Rightarrow>
             (case lex_frac r1 of
                Inl e \<Rightarrow> Inl e
              | Inr (fp, r2) \<Rightarrow>
                  (case lex_exp r2 of
                     Inl e \<Rightarrow> Inl e
                   | Inr (ep, r3) \<Rightarrow> Inr (sg @ ip @ fp @ ep, r3))))"

fun strip_prefix :: "string \<Rightarrow> string \<Rightarrow> string option" where
  "strip_prefix [] s = Some s"
| "strip_prefix (p # ps) [] = None"
| "strip_prefix (p # ps) (c # cs) = (if p = c then strip_prefix ps cs else None)"

definition cons_token :: "token \<Rightarrow> error + token list \<Rightarrow> error + token list" where
  "cons_token t r = (case r of Inl e \<Rightarrow> Inl e | Inr ts \<Rightarrow> Inr (t # ts))"

lemma lex_string_length: "lex_string acc cs = Inr (s, r) \<Longrightarrow> length r < length cs"
proof (induction acc cs rule: lex_string.induct)
  case (1 acc)
  then show ?case by simp
next
  case (2 acc c cs)
  show ?case
  proof (cases "c = CHR 0x22")
    case True
    with "2.prems" show ?thesis by simp
  next
    case nq: False
    show ?thesis
    proof (cases "c = CHR 0x5C")
      case bs: True
      show ?thesis
      proof (cases cs)
        case Nil
        with "2.prems" nq bs show ?thesis by simp
      next
        case (Cons e t)
        show ?thesis
        proof (cases "e = CHR ''u''")
          case u: True
          show ?thesis
          proof (cases "hex4 (take 4 t)")
            case None
            with "2.prems" nq bs Cons u show ?thesis by simp
          next
            case (Some n)
            with "2.prems" nq bs Cons u
            have "lex_string (rev (utf8 n) @ acc) (drop 4 t) = Inr (s, r)" by simp
            with "2.IH"(1)[OF nq bs Cons u Some]
            have "length r < length (drop 4 t)" by simp
            with Cons show ?thesis by simp
          qed
        next
          case nu: False
          show ?thesis
          proof (cases "unescape e")
            case None
            with "2.prems" nq bs Cons nu show ?thesis by simp
          next
            case (Some ch)
            with "2.prems" nq bs Cons nu
            have "lex_string (ch # acc) t = Inr (s, r)" by simp
            with "2.IH"(2)[OF nq bs Cons nu Some]
            have "length r < length t" by simp
            with Cons show ?thesis by simp
          qed
        qed
      qed
    next
      case nb: False
      show ?thesis
      proof (cases "(of_char c :: nat) < 32")
        case True
        with "2.prems" nq nb show ?thesis by simp
      next
        case False
        with "2.prems" nq nb have "lex_string (c # acc) cs = Inr (s, r)" by simp
        with "2.IH"(3)[OF nq nb False] show ?thesis by simp
      qed
    qed
  qed
qed

lemma lex_digits_length: "lex_digits cs = Inr (s, r) \<Longrightarrow> length r \<le> length cs"
  by (auto simp: lex_digits_def length_dropWhile_le split: if_splits)

lemma lex_digits_length': "lex_digits cs = Inr (s, r) \<Longrightarrow> length r < length cs"
  by (cases cs) (auto simp: lex_digits_def split: if_splits intro: le_imp_less_Suc length_dropWhile_le)

lemma lex_int_length: "lex_int cs = Inr (s, r) \<Longrightarrow> length r < length cs"
  by (auto simp: lex_int_def split: list.splits if_splits dest: lex_digits_length')

lemma lex_frac_length: "lex_frac cs = Inr (s, r) \<Longrightarrow> length r \<le> length cs"
  by (auto simp: lex_frac_def split: list.splits if_splits sum.splits dest!: lex_digits_length)

lemma lex_sign_length: "length (snd (lex_sign cs)) \<le> length cs"
  by (auto simp: lex_sign_def split: list.splits)

lemma lex_exp_length: "lex_exp cs = Inr (s, r) \<Longrightarrow> length r \<le> length cs"
proof (cases cs)
  case Nil
  assume "lex_exp cs = Inr (s, r)"
  with Nil show ?thesis by (simp add: lex_exp_def)
next
  case (Cons e t)
  assume a: "lex_exp cs = Inr (s, r)"
  show ?thesis
  proof (cases "e = CHR ''e'' \<or> e = CHR ''E''")
    case True
    with a Cons obtain ds where "lex_digits (snd (lex_sign t)) = Inr (ds, r)"
      by (auto simp: lex_exp_def split: sum.splits)
    then have "length r \<le> length (snd (lex_sign t))" by (rule lex_digits_length)
    also have "\<dots> \<le> length t" by (rule lex_sign_length)
    finally show ?thesis using Cons by simp
  next
    case False
    with a Cons show ?thesis by (auto simp: lex_exp_def)
  qed
qed

lemma lex_number_length: "lex_number cs = Inr (s, r) \<Longrightarrow> length r < length cs"
proof -
  assume a: "lex_number cs = Inr (s, r)"
  define r0 where "r0 = snd (case cs of [] \<Rightarrow> ([], cs)
                      | s # r \<Rightarrow> if s = CHR ''-'' then ([s], r) else ([], cs))"
  have r0: "length r0 \<le> length cs" by (auto simp: r0_def split: list.splits)
  from a obtain ip r1 fp r2 ep where
    1: "lex_int r0 = Inr (ip, r1)" and 2: "lex_frac r1 = Inr (fp, r2)" and 3: "lex_exp r2 = Inr (ep, r)"
    by (auto simp: lex_number_def r0_def Let_def split: sum.splits prod.splits)
  from lex_int_length[OF 1] lex_frac_length[OF 2] lex_exp_length[OF 3] r0
  show ?thesis by simp
qed

lemma strip_prefix_length: "strip_prefix p s = Some r \<Longrightarrow> length r \<le> length s"
  by (induction p s rule: strip_prefix.induct) (auto split: if_splits)

function tokenize :: "string \<Rightarrow> error + token list" where
  "tokenize [] = Inr []"
| "tokenize (c # cs) =
     (if is_json_space c then tokenize cs
      else if c = CHR ''{'' then cons_token LBrace (tokenize cs)
      else if c = CHR ''}'' then cons_token RBrace (tokenize cs)
      else if c = CHR ''['' then cons_token LBrack (tokenize cs)
      else if c = CHR '']'' then cons_token RBrack (tokenize cs)
      else if c = CHR '':'' then cons_token Colon (tokenize cs)
      else if c = CHR '','' then cons_token Comma (tokenize cs)
      else if c = CHR 0x22 then
        (case lex_string [] cs of
           Inl e \<Rightarrow> Inl e
         | Inr (s, r) \<Rightarrow> cons_token (TStr s) (tokenize r))
      else if c = CHR ''-'' \<or> is_dec c then
        (case lex_number (c # cs) of
           Inl e \<Rightarrow> Inl e
         | Inr (l, r) \<Rightarrow> cons_token (TNum l) (tokenize r))
      else if c = CHR ''t'' then
        (case strip_prefix ''rue'' cs of
           None \<Rightarrow> Inl SyntaxError
         | Some r \<Rightarrow> cons_token TTrue (tokenize r))
      else if c = CHR ''f'' then
        (case strip_prefix ''alse'' cs of
           None \<Rightarrow> Inl SyntaxError
         | Some r \<Rightarrow> cons_token TFalse (tokenize r))
      else if c = CHR ''n'' then
        (case strip_prefix ''ull'' cs of
           None \<Rightarrow> Inl SyntaxError
         | Some r \<Rightarrow> cons_token TNull (tokenize r))
      else Inl SyntaxError)"
  by pat_completeness auto
termination
  apply (relation "measure length")
  apply simp_all
  subgoal for c cs x s r using lex_string_length[of "[]" cs s r] by simp
  subgoal for c cs x l r using lex_number_length[of "c # cs" l r] by simp
  subgoal for c cs r using strip_prefix_length[of "''rue''" cs r] by simp
  subgoal for c cs r using strip_prefix_length[of "''alse''" cs r] by simp
  subgoal for c cs r using strip_prefix_length[of "''ull''" cs r] by simp
  done

datatype frame = InArray "json list" | InObject "(string \<times> json) list" string

datatype pstate =
    ExpectValue
  | ArrayStart
  | ObjectStart
  | ExpectKey "(string \<times> json) list"
  | ExpectColon
  | Got json

text \<open>The state after a token that starts a value.\<close>

fun shift :: "token \<Rightarrow> pstate option" where
  "shift (TStr s) = Some (Got (JString s))"
| "shift (TNum l) = Some (Got (JNumber l))"
| "shift TTrue = Some (Got (JBool True))"
| "shift TFalse = Some (Got (JBool False))"
| "shift TNull = Some (Got JNull)"
| "shift LBrack = Some ArrayStart"
| "shift LBrace = Some ObjectStart"
| "shift _ = None"

fun key_of :: "token \<Rightarrow> string option" where
  "key_of (TStr k) = Some k"
| "key_of _ = None"

fun parse_tokens :: "pstate \<Rightarrow> frame list \<Rightarrow> token list \<Rightarrow> error + json" where
  "parse_tokens (Got v) [] [] = Inr v"
| "parse_tokens _ _ [] = Inl SyntaxError"
| "parse_tokens (Got v) [] (t # ts) = Inl SyntaxError"
| "parse_tokens (Got v) (InArray acc # st) (t # ts) =
     (if t = Comma then parse_tokens ExpectValue (InArray (v # acc) # st) ts
      else if t = RBrack then parse_tokens (Got (JArray (rev (v # acc)))) st ts
      else Inl SyntaxError)"
| "parse_tokens (Got v) (InObject acc k # st) (t # ts) =
     (if t = Comma then parse_tokens (ExpectKey ((k, v) # acc)) st ts
      else if t = RBrace then parse_tokens (Got (JObject (rev ((k, v) # acc)))) st ts
      else Inl SyntaxError)"
| "parse_tokens ExpectValue st (t # ts) =
     (case shift t of
        None \<Rightarrow> Inl SyntaxError
      | Some s \<Rightarrow> parse_tokens s st ts)"
| "parse_tokens ArrayStart st (t # ts) =
     (if t = RBrack then parse_tokens (Got (JArray [])) st ts
      else case shift t of
             None \<Rightarrow> Inl SyntaxError
           | Some s \<Rightarrow> parse_tokens s (InArray [] # st) ts)"
| "parse_tokens ObjectStart st (t # ts) =
     (if t = RBrace then parse_tokens (Got (JObject [])) st ts
      else case key_of t of
             None \<Rightarrow> Inl SyntaxError
           | Some k \<Rightarrow> parse_tokens ExpectColon (InObject [] k # st) ts)"
| "parse_tokens (ExpectKey acc) st (t # ts) =
     (case key_of t of
        None \<Rightarrow> Inl SyntaxError
      | Some k \<Rightarrow> parse_tokens ExpectColon (InObject acc k # st) ts)"
| "parse_tokens ExpectColon st (t # ts) =
     (if t = Colon then parse_tokens ExpectValue st ts else Inl SyntaxError)"

definition JSON_parse :: "string \<Rightarrow> error + json" where
  "JSON_parse text =
     (case tokenize text of
        Inl e \<Rightarrow> Inl e
      | Inr ts \<Rightarrow> parse_tokens ExpectValue [] ts)"

text \<open>A \<open>Property\<close> as the JSON value \<open>JSON.stringify\<close> walks, keys in the order of the
  interface and of the catalog file.\<close>

definition Property_json :: "Property \<Rightarrow> json" where
  "Property_json p =
     JObject
       [(''id'', JNumber (string_of_int (id' p))),
        (''type'', JString (type' p)),
        (''bedrooms'', JNumber (string_of_int (bedrooms p))),
        (''price'', JNumber (string_of_int (price p))),
        (''location'', JString (location p)),
        (''description'', JString (description p)),
        (''added'', JString (added p)),
        (''picture'', JString (picture p)),
        (''images'', JArray (map JString (images p))),
        (''url'', JString (url p)),
        (''tenure'', JString (tenure p)),
        (''postcode'', JString (postcode p))]"

definition favorites_json :: "Property list \<Rightarrow> json" where
  "favorites_json favs = JArray (map Property_json favs)"

subsection \<open>\<open>localStorage\<close>\<close>

type_synonym storage = "string \<Rightarrow> string option"

definition getItem :: "string \<Rightarrow> storage \<Rightarrow> string option" where
  "getItem k ls = ls k"

definition setItem :: "string \<Rightarrow> string \<Rightarrow> storage \<Rightarrow> storage" where
  "setItem k v ls = ls(k \<mapsto> v)"

definition removeItem :: "string \<Rightarrow> storage \<Rightarrow> storage" where
  "removeItem k ls = ls(k := None)"

subsection \<open>The state of the two pages\<close>

text \<open>
  Both pages hold a \<open>favorites\<close> state and share the browser's \<open>localStorage\<close>.
  \<open>Index\<close> adds the catalog and the search result, \<open>PropertyDetail\<close> the property
  shown (\<open>None\<close> is \<open>null\<close>) and the \<open>loading\<close> flag.
\<close>

record fav_state =
  favorites :: "Property list"
  localStorage :: storage

record index_state = fav_state +
  properties :: "Property list"
  filteredProperties :: "Property list"
  showFavorites :: bool

record detail_state = fav_state +
  property :: "Property option"
  loading :: bool

text \<open>\<open>xs.some(p)\<close>.\<close>

definition some :: "('a \<Rightarrow> bool) \<Rightarrow> 'a list \<Rightarrow> bool" where
  "some p xs = list_ex p xs"

subsection \<open>The handlers of \<open>Index\<close>\<close>

definition handleSearch :: "SearchFilters \<Rightarrow> index_state \<Rightarrow> index_state" where
  "handleSearch filters st = st\<lparr>filteredProperties := applyFilters (properties st) filters\<rparr>"

text \<open>
  The \<open>newFavorites\<close> of \<open>handleFavorite\<close>, which both pages compute in the same way.
\<close>

definition newFavorites :: "Property list \<Rightarrow> Property \<Rightarrow> Property list" where
  "newFavorites favs p =
     (let isAlreadyFavorite = some (\<lambda>fav. id' fav = id' p) favs
      in if isAlreadyFavorite then filter (\<lambda>fav. id' fav \<noteq> id' p) favs
         else favs @ [p])"

definition handleFavorite :: "Property \<Rightarrow> index_state \<Rightarrow> index_state" where
  "handleFavorite p st =
     st\<lparr>favorites := newFavorites (favorites st) p,
        localStorage :=
          setItem ''propertyFavorites''
            (JSON_stringify (favorites_json (newFavorites (favorites st) p)))
            (localStorage st)\<rparr>"

definition clearFavorites :: "index_state \<Rightarrow> index_state" where
  "clearFavorites st =
     st\<lparr>favorites := [], localStorage := removeItem ''propertyFavorites'' (localStorage st)\<rparr>"

definition isFavorite :: "int \<Rightarrow> index_state \<Rightarrow> bool" where
  "isFavorite propertyId st = some (\<lambda>fav. id' fav = propertyId) (favorites st)"

text \<open>
  The favourites panel receives \<open>handleFavorite\<close> as its \<open>onRemoveFavorite\<close> and
  \<open>clearFavorites\<close> as its \<open>onClearAll\<close>.
\<close>

definition onRemoveFavorite :: "Property \<Rightarrow> index_state \<Rightarrow> index_state" where
  "onRemoveFavorite = handleFavorite"

subsection \<open>The handlers of \<open>PropertyDetail\<close>\<close>

text \<open>\<open>id || '0'\<close>, for the route parameter \<open>id\<close>, a string or \<open>undefined\<close>.\<close>

definition id_or_zero :: "string option \<Rightarrow> string" where
  "id_or_zero rid = (case rid of None \<Rightarrow> ''0'' | Some s \<Rightarrow> if truthy_str s then s else ''0'')"

text \<open>
  The lookup of the mount effect: the value given to \<open>setProperty\<close>, \<open>None\<close> for
  \<open>null\<close>, on which the page renders "Property Not Found".
\<close>

definition foundProperty :: "Property list \<Rightarrow> string option \<Rightarrow> Property option" where
  "foundProperty propertiesData rid =
     (let propertyId = parseInt (id_or_zero rid)
      in find (\<lambda>p. js_eq (Num (id' p)) propertyId) propertiesData)"

definition handleFavorite_detail :: "detail_state \<Rightarrow> detail_state" where
  "handleFavorite_detail st =
     (case property st of
        None \<Rightarrow> st
      | Some p \<Rightarrow>
          st\<lparr>favorites := newFavorites (favorites st) p,
             localStorage :=
               setItem ''propertyFavorites''
                 (JSON_stringify (favorites_json (newFavorites (favorites st) p)))
                 (localStorage st)\<rparr>)"

subsection \<open>Hydration\<close>

text \<open>
  The mount effect of either page reads the key and, when the value is truthy, gives
  \<open>JSON.parse\<close> of it to \<open>setFavorites\<close>, with no check and no \<open>try\<close>. The result is
  the value of the \<open>favorites\<close> state after the effect, as a JSON value (the state starts
  as \<open>[]\<close>), or the exception that leaves the effect.
\<close>

definition hydrate :: "storage \<Rightarrow> error + json" where
  "hydrate ls =
     (case getItem ''propertyFavorites'' ls of
        None \<Rightarrow> Inr (JArray [])
      | Some savedFavorites \<Rightarrow>
          if truthy_str savedFavorites then JSON_parse savedFavorites else Inr (JArray []))"

subsection \<open>The criteria of a search, as predicates on one record\<close>

text \<open>
  What a field of the filters asks of a record. A field constrains only when it is set
  and truthy: a string that is not empty (and, for the type, not \<open>Any\<close>), a number that
  is neither \<open>0\<close> nor \<open>NaN\<close>.
\<close>

definition crit_type :: "SearchFilters \<Rightarrow> Property \<Rightarrow> bool" where
  "crit_type f p =
     (case type_f f of
        None \<Rightarrow> True
      | Some t \<Rightarrow> if truthy_str t \<and> t \<noteq> ''Any'' then type' p = t else True)"

definition crit_minPrice :: "SearchFilters \<Rightarrow> Property \<Rightarrow> bool" where
  "crit_minPrice f p =
     (case minPrice f of
        None \<Rightarrow> True
      | Some v \<Rightarrow> if truthy_num v then js_ge (Num (price p)) v else True)"

definition crit_maxPrice :: "SearchFilters \<Rightarrow> Property \<Rightarrow> bool" where
  "crit_maxPrice f p =
     (case maxPrice f of
        None \<Rightarrow> True
      | Some v \<Rightarrow> if truthy_num v then js_le (Num (price p)) v else True)"

definition crit_minBedrooms :: "SearchFilters \<Rightarrow> Property \<Rightarrow> bool" where
  "crit_minBedrooms f p =
     (case minBedrooms f of
        None \<Rightarrow> True
      | Some v \<Rightarrow> if truthy_num v then js_ge (Num (bedrooms p)) v else True)"

definition crit_maxBedrooms :: "SearchFilters \<Rightarrow> Property \<Rightarrow> bool" where
  "crit_maxBedrooms f p =
     (case maxBedrooms f of
        None \<Rightarrow> True
      | Some v \<Rightarrow> if truthy_num v then js_le (Num (bedrooms p)) v else True)"

definition crit_postcodeArea :: "SearchFilters \<Rightarrow> Property \<Rightarrow> bool" where
  "crit_postcodeArea f p =
     (case postcodeArea f of
        None \<Rightarrow> True
      | Some a \<Rightarrow>
          if truthy_str a then includes_str (toLowerCase (postcode p)) (toLowerCase a)
          else True)"

definition crit_dateFrom :: "SearchFilters \<Rightarrow> Property \<Rightarrow> bool" where
  "crit_dateFrom f p =
     (case dateFrom f of
        None \<Rightarrow> True
      | Some d \<Rightarrow> if truthy_str d then js_ge (Date_value (added p)) (Date_value d) else True)"

definition crit_dateTo :: "SearchFilters \<Rightarrow> Property \<Rightarrow> bool" where
  "crit_dateTo f p =
     (case dateTo f of
        None \<Rightarrow> True
      | Some d \<Rightarrow> if truthy_str d then js_le (Date_value (added p)) (Date_value d) else True)"

definition matches :: "SearchFilters \<Rightarrow> Property \<Rightarrow> bool" where
  "matches f p =
     (crit_type f p \<and> crit_minPrice f p \<and> crit_maxPrice f p \<and> crit_minBedrooms f p \<and>
      crit_maxBedrooms f p \<and> crit_postcodeArea f p \<and> crit_dateFrom f p \<and> crit_dateTo f p)"

text \<open>
  The same with "present" read as "the field is set": every field that is set
  constrains, whatever its value (the type unless it is \<open>Any\<close>).
\<close>

definition satisfies_present :: "SearchFilters \<Rightarrow> Property \<Rightarrow> bool" where
  "satisfies_present f p =
     ((case type_f f of None \<Rightarrow> True | Some t \<Rightarrow> t = ''Any'' \<or> type' p = t) \<and>
      (case minPrice f of None \<Rightarrow> True | Some v \<Rightarrow> js_ge (Num (price p)) v) \<and>
      (case maxPrice f of None \<Rightarrow> True | Some v \<Rightarrow> js_le (Num (price p)) v) \<and>
      (case minBedrooms f of None \<Rightarrow> True | Some v \<Rightarrow> js_ge (Num (bedrooms p)) v) \<and>
      (case maxBedrooms f of None \<Rightarrow> True | Some v \<Rightarrow> js_le (Num (bedrooms p)) v) \<and>
      (case postcodeArea f of
         None \<Rightarrow> True
       | Some a \<Rightarrow> includes_str (toLowerCase (postcode p)) (toLowerCase a)) \<and>
      (case dateFrom f of
         None \<Rightarrow> True
       | Some d \<Rightarrow> js_ge (Date_value (added p)) (Date_value d)) \<and>
      (case dateTo f of
         None \<Rightarrow> True
       | Some d \<Rightarrow> js_le (Date_value (added p)) (Date_value d)))"

text \<open>Every field that is set is truthy.\<close>

definition all_truthy :: "SearchFilters \<Rightarrow> bool" where
  "all_truthy f =
     ((case type_f f of None \<Rightarrow> True | Some t \<Rightarrow> truthy_str t) \<and>
      (case minPrice f of None \<Rightarrow> True | Some v \<Rightarrow> truthy_num v) \<and>
      (case maxPrice f of None \<Rightarrow> True | Some v \<Rightarrow> truthy_num v) \<and>
      (case minBedrooms f of None \<Rightarrow> True | Some v \<Rightarrow> truthy_num v) \<and>
      (case maxBedrooms f of None \<Rightarrow> True | Some v \<Rightarrow> truthy_num v) \<and>
      (case postcodeArea f of None \<Rightarrow> True | Some a \<Rightarrow> truthy_str a) \<and>
      (case dateFrom f of None \<Rightarrow> True | Some d \<Rightarrow> truthy_str d) \<and>
      (case dateTo f of None \<Rightarrow> True | Some d \<Rightarrow> truthy_str d))"

text \<open>
  The state of the search form after a sequence of changes, from its initial state
  \<open>{}\<close>; this is what a submission passes to \<open>handleSearch\<close>.
\<close>

definition form_filters :: "filter_change list \<Rightarrow> SearchFilters" where
  "form_filters cs = foldl (\<lambda>prev c. handleFilterChange c prev) no_filters cs"

subsection \<open>Example data\<close>

text \<open>The two records of the example scenario, and states of the pages built on them.\<close>

definition house :: Property where
  "house =
     \<lparr>id' = 1, type' = ''House'', bedrooms = 3, price = 500000, location = ''Richmond'',
      description = ''Victorian house'', added = ''2024-01-01'', picture = ''house.jpg'',
      images = [''house1.jpg'', ''house2.jpg''], url = ''house'', tenure = ''Freehold'',
      postcode = ''SW1''\<rparr>"

definition flat :: Property where
  "flat =
     \<lparr>id' = 2, type' = ''Flat'', bedrooms = 1, price = 300000, location = ''Camden'',
      description = ''Studio flat'', added = ''2024-06-01'', picture = ''flat.jpg'',
      images = [], url = ''flat'', tenure = ''Leasehold'', postcode = ''NW1''\<rparr>"

definition index_init :: "Property list \<Rightarrow> Property list \<Rightarrow> index_state" where
  "index_init propertiesData favs =
     \<lparr>favorites = favs, localStorage = Map.empty, properties = propertiesData,
      filteredProperties = propertiesData, showFavorites = False\<rparr>"

definition detail_init :: "Property option \<Rightarrow> Property list \<Rightarrow> detail_state" where
  "detail_init shown favs =
     \<lparr>favorites = favs, localStorage = Map.empty, property = shown, loading = False\<rparr>"

text \<open>A \<open>localStorage\<close> that holds the given text under the favourites key and nothing else.\<close>

definition stored :: "string \<Rightarrow> storage" where
  "stored v = setItem ''propertyFavorites'' v Map.empty"

section \<open>Properties\<close>

subsection \<open>The pipeline is one filter\<close>

lemma filter_type_eq: "filter_type f xs = filter (crit_type f) xs"
  by (cases "type_f f") (auto simp: filter_type_def crit_type_def [abs_def])

lemma filter_minPrice_eq: "filter_minPrice f xs = filter (crit_minPrice f) xs"
  by (cases "minPrice f") (simp_all add: filter_minPrice_def crit_minPrice_def [abs_def])

lemma filter_maxPrice_eq: "filter_maxPrice f xs = filter (crit_maxPrice f) xs"
  by (cases "maxPrice f") (simp_all add: filter_maxPrice_def crit_maxPrice_def [abs_def])

lemma filter_minBedrooms_eq: "filter_minBedrooms f xs = filter (crit_minBedrooms f) xs"
  by (cases "minBedrooms f") (simp_all add: filter_minBedrooms_def crit_minBedrooms_def [abs_def])

lemma filter_maxBedrooms_eq: "filter_maxBedrooms f xs = filter (crit_maxBedrooms f) xs"
  by (cases "maxBedrooms f") (simp_all add: filter_maxBedrooms_def crit_maxBedrooms_def [abs_def])

lemma filter_postcodeArea_eq: "filter_postcodeArea f xs = filter (crit_postcodeArea f) xs"
  by (cases "postcodeArea f") (simp_all add: filter_postcodeArea_def crit_postcodeArea_def [abs_def])

lemma filter_dateFrom_eq: "filter_dateFrom f xs = filter (crit_dateFrom f) xs"
  by (cases "dateFrom f") (simp_all add: filter_dateFrom_def crit_dateFrom_def [abs_def])

lemma filter_dateTo_eq: "filter_dateTo f xs = filter (crit_dateTo f) xs"
  by (cases "dateTo f") (simp_all add: filter_dateTo_def crit_dateTo_def [abs_def])

lemmas filter_step_eqs =
  filter_type_eq filter_minPrice_eq filter_maxPrice_eq filter_minBedrooms_eq
  filter_maxBedrooms_eq filter_postcodeArea_eq filter_dateFrom_eq filter_dateTo_eq

lemma applyFilters_filter: "applyFilters xs f = filter (matches f) xs"
  unfolding applyFilters_def Let_def filter_step_eqs filter_filter matches_def
  by (simp cong: conj_cong)

lemma applyFilters_no_filters: "applyFilters xs no_filters = xs"
  by (simp add: applyFilters_filter matches_def no_filters_def crit_type_def
      crit_minPrice_def crit_maxPrice_def crit_minBedrooms_def crit_maxBedrooms_def
      crit_postcodeArea_def crit_dateFrom_def crit_dateTo_def)

text \<open>
  Where every field that is set is truthy, the two readings of "present" agree.
\<close>

lemma matches_present: "all_truthy f \<Longrightarrow> matches f p = satisfies_present f p"
  unfolding all_truthy_def matches_def satisfies_present_def crit_type_def
    crit_minPrice_def crit_maxPrice_def crit_minBedrooms_def crit_maxBedrooms_def
    crit_postcodeArea_def crit_dateFrom_def crit_dateTo_def
  by (cases "type_f f"; cases "minPrice f"; cases "maxPrice f"; cases "minBedrooms f")
     (auto split: option.splits)

text \<open>
  The form never stores a falsy value, so for the filters of a submission the result is
  the conjunction of all the criteria that are set.
\<close>

lemma all_truthy_no_filters: "all_truthy no_filters"
  by (simp add: all_truthy_def no_filters_def)

lemma all_truthy_handleFilterChange:
  "all_truthy f \<Longrightarrow> all_truthy (handleFilterChange c f)"
  by (cases c) (simp_all add: all_truthy_def num_or_undefined_def str_or_undefined_def)

lemma all_truthy_form_filters: "all_truthy (form_filters cs)"
  unfolding form_filters_def
  by (induction cs rule: rev_induct)
     (simp_all add: all_truthy_no_filters all_truthy_handleFilterChange)

lemma search_from_form:
  "filteredProperties (handleSearch (form_filters cs) st)
     = filter (satisfies_present (form_filters cs)) (properties st)"
  using matches_present [OF all_truthy_form_filters, of cs]
  by (simp add: handleSearch_def applyFilters_filter cong: filter_cong)

lemmas crit_defs =
  crit_type_def crit_minPrice_def crit_maxPrice_def crit_minBedrooms_def
  crit_maxBedrooms_def crit_postcodeArea_def crit_dateFrom_def crit_dateTo_def

subsection \<open>C1: the result of a search\<close>

text \<open>
  Claim C1, as amended. The result of \<open>handleSearch\<close> is the catalog filtered, in catalog
  order, by the conjunction of the criteria that are set and truthy: a record is in the
  result if and only if it is in the catalog and meets the type (unless the field is
  \<open>Any\<close>), the inclusive price and bedroom bounds, the case-insensitive postcode
  containment and the inclusive date bounds, each only where its field is set and
  truthy. Where every field that is set is truthy, this is the conjunction of all the
  criteria that are set. With no field set, the result is the catalog itself.
\<close>

theorem C1_search_is_filter_of_truthy_criteria:
  "filteredProperties (handleSearch f st) = filter (matches f) (properties st)
   \<and> (p \<in> set (filteredProperties (handleSearch f st))
        \<longleftrightarrow> p \<in> set (properties st) \<and> matches f p)
   \<and> (all_truthy f \<longrightarrow>
        filteredProperties (handleSearch f st) = filter (satisfies_present f) (properties st))
   \<and> filteredProperties (handleSearch no_filters st) = properties st"
proof -
  have 1: "filteredProperties (handleSearch f st) = filter (matches f) (properties st)"
    by (simp add: handleSearch_def applyFilters_filter)
  have 2: "all_truthy f \<longrightarrow>
        filteredProperties (handleSearch f st) = filter (satisfies_present f) (properties st)"
    using matches_present [of f] by (simp add: 1 cong: filter_cong)
  have 3: "filteredProperties (handleSearch no_filters st) = properties st"
    by (simp add: handleSearch_def applyFilters_no_filters)
  from 1 2 3 show ?thesis by simp
qed

text \<open>
  The third search of the example scenario: the postcode area \<open>sw\<close> keeps the house
  in \<open>SW1\<close> only.
\<close>

theorem C1_witness:
  "all_truthy (no_filters\<lparr>postcodeArea := Some ''sw''\<rparr>)
   \<and> filteredProperties (handleSearch (no_filters\<lparr>postcodeArea := Some ''sw''\<rparr>)
        (index_init [house, flat] [])) = [house]
   \<and> filter (satisfies_present (no_filters\<lparr>postcodeArea := Some ''sw''\<rparr>)) [house, flat]
        = [house]"
proof -
  have t: "all_truthy (no_filters\<lparr>postcodeArea := Some ''sw''\<rparr>)"
    by code_simp
  have e: "filter (matches (no_filters\<lparr>postcodeArea := Some ''sw''\<rparr>)) [house, flat] = [house]"
    by code_simp
  have p: "properties (index_init [house, flat] []) = [house, flat]"
    by (simp add: index_init_def)
  note th = C1_search_is_filter_of_truthy_criteria
      [of "no_filters\<lparr>postcodeArea := Some ''sw''\<rparr>" "index_init [house, flat] []" house]
  from th have 1: "filteredProperties (handleSearch (no_filters\<lparr>postcodeArea := Some ''sw''\<rparr>)
        (index_init [house, flat] [])) = [house]"
    by (simp only: e p)
  from th t have "filteredProperties (handleSearch (no_filters\<lparr>postcodeArea := Some ''sw''\<rparr>)
        (index_init [house, flat] []))
      = filter (satisfies_present (no_filters\<lparr>postcodeArea := Some ''sw''\<rparr>))
          (properties (index_init [house, flat] []))"
    by blast
  then have 2: "filter (satisfies_present (no_filters\<lparr>postcodeArea := Some ''sw''\<rparr>))
      [house, flat] = [house]"
    by (simp only: 1 p)
  from t 1 2 show ?thesis by blast
qed

text \<open>
  The claim as stated, with every field that is set taken as a criterion, fails for
  \<open>maxPrice = 0\<close>: the search returns the whole catalog, and no record of it has a price
  of at most \<open>0\<close>.
\<close>

theorem C1_counterexample:
  "filteredProperties (handleSearch (no_filters\<lparr>maxPrice := Some (Num 0)\<rparr>)
       (index_init [house, flat] [])) = [house, flat]
   \<and> filter (satisfies_present (no_filters\<lparr>maxPrice := Some (Num 0)\<rparr>)) [house, flat] = []"
  by code_simp

subsection \<open>C6: a malformed number in the form\<close>




subsection \<open>C7: the upper price bound at the boundary\<close>

text \<open>
  Claim C7, as amended. For every record \<open>r\<close> whose price is not \<open>1\<close>, the search with
  the single criterion \<open>maxPrice = price r - 1\<close> returns a result without \<open>r\<close>.
\<close>

theorem C7_max_price_excludes_dearer:
  "price r \<noteq> 1 \<Longrightarrow>
   r \<notin> set (filteredProperties
               (handleSearch (no_filters\<lparr>maxPrice := Some (Num (price r - 1))\<rparr>) st))"
  by (simp add: handleSearch_def applyFilters_filter matches_def crit_maxPrice_def
      no_filters_def)

theorem C7_witness:
  "price house \<noteq> 1
   \<and> filteredProperties (handleSearch (no_filters\<lparr>maxPrice := Some (Num (price house - 1))\<rparr>)
        (index_init [house, flat] [])) = [flat]
   \<and> house \<notin> set (filteredProperties
        (handleSearch (no_filters\<lparr>maxPrice := Some (Num (price house - 1))\<rparr>)
          (index_init [house, flat] [])))"
proof -
  have a: "price house \<noteq> 1" by (simp add: house_def)
  have b: "filteredProperties (handleSearch (no_filters\<lparr>maxPrice := Some (Num (price house - 1))\<rparr>)
        (index_init [house, flat] [])) = [flat]" by code_simp
  from C7_max_price_excludes_dearer [OF a, of "index_init [house, flat] []"] a b
  show ?thesis by simp
qed

text \<open>
  As stated, for every non-negative price, the claim fails at the price \<open>1\<close>: the
  criterion is then \<open>maxPrice = 0\<close>, which the guard of \<open>handleSearch\<close> skips, and the
  record stays in the result. The same search made through the form, with \<open>0\<close> typed
  as the maximum price, keeps the record as well.
\<close>

theorem C7_counterexample:
  "price (house\<lparr>price := 1\<rparr>) = 1
   \<and> house\<lparr>price := 1\<rparr> \<in> set (filteredProperties
        (handleSearch (no_filters\<lparr>maxPrice := Some (Num (price (house\<lparr>price := 1\<rparr>) - 1))\<rparr>)
          (index_init [house\<lparr>price := 1\<rparr>, flat] [])))
   \<and> house\<lparr>price := 1\<rparr> \<in> set (filteredProperties
        (handleSearch (handleFilterChange (MaxPrice (parseInt ''0'')) no_filters)
          (index_init [house\<lparr>price := 1\<rparr>, flat] [])))"
  by code_simp

subsection \<open>C10: a criterion that is set but falsy\<close>

text \<open>
  Claim C10. A numeric criterion equal to \<open>0\<close>, or a \<open>postcodeArea\<close> that is the
  empty string, imposes no constraint: the result of \<open>handleSearch\<close> is that of the
  filters with the field absent, and \<open>handleFilterChange\<close> stores such a value as
  \<open>undefined\<close> in the first place.
\<close>

theorem C10_falsy_criterion_is_no_constraint:
  "filteredProperties (handleSearch (f\<lparr>minPrice := Some (Num 0)\<rparr>) st)
     = filteredProperties (handleSearch (f\<lparr>minPrice := None\<rparr>) st)
   \<and> filteredProperties (handleSearch (f\<lparr>maxPrice := Some (Num 0)\<rparr>) st)
     = filteredProperties (handleSearch (f\<lparr>maxPrice := None\<rparr>) st)
   \<and> filteredProperties (handleSearch (f\<lparr>minBedrooms := Some (Num 0)\<rparr>) st)
     = filteredProperties (handleSearch (f\<lparr>minBedrooms := None\<rparr>) st)
   \<and> filteredProperties (handleSearch (f\<lparr>maxBedrooms := Some (Num 0)\<rparr>) st)
     = filteredProperties (handleSearch (f\<lparr>maxBedrooms := None\<rparr>) st)
   \<and> filteredProperties (handleSearch (f\<lparr>postcodeArea := Some ''''\<rparr>) st)
     = filteredProperties (handleSearch (f\<lparr>postcodeArea := None\<rparr>) st)
   \<and> handleFilterChange (MaxPrice (Num 0)) f = f\<lparr>maxPrice := None\<rparr>
   \<and> handleFilterChange (MinBedrooms (Num 0)) f = f\<lparr>minBedrooms := None\<rparr>
   \<and> handleFilterChange (PostcodeArea '''') f = f\<lparr>postcodeArea := None\<rparr>"
  by (simp add: handleSearch_def applyFilters_filter matches_def [abs_def] crit_defs [abs_def]
      num_or_undefined_def str_or_undefined_def truthy_str_def)

text \<open>With \<open>maxPrice = 0\<close> the whole example catalog is returned.\<close>

theorem C10_witness:
  "filteredProperties (handleSearch (no_filters\<lparr>maxPrice := Some (Num 0)\<rparr>)
       (index_init [house, flat] [])) = [house, flat]"
proof -
  have a: "filteredProperties (handleSearch (no_filters\<lparr>maxPrice := None\<rparr>)
       (index_init [house, flat] [])) = [house, flat]" by code_simp
  from C10_falsy_criterion_is_no_constraint [of no_filters "index_init [house, flat] []"] a
  show ?thesis by simp
qed

subsection \<open>The favourites after a toggle\<close>

lemma some_iff: "some P xs \<longleftrightarrow> (\<exists>x \<in> set xs. P x)"
  by (simp add: some_def list_ex_iff)

lemma newFavorites_present:
  "\<exists>fav \<in> set favs. id' fav = id' p \<Longrightarrow>
   newFavorites favs p = filter (\<lambda>fav. id' fav \<noteq> id' p) favs"
  by (simp add: newFavorites_def some_iff)

lemma newFavorites_absent:
  "\<forall>fav \<in> set favs. id' fav \<noteq> id' p \<Longrightarrow> newFavorites favs p = favs @ [p]"
  by (simp add: newFavorites_def some_iff)

lemma favorites_handleFavorite:
  "favorites (handleFavorite p st) = newFavorites (favorites st) p"
  by (simp add: handleFavorite_def)

lemma favorites_handleFavorite_detail:
  "property st = Some p \<Longrightarrow>
   favorites (handleFavorite_detail st) = newFavorites (favorites st) p"
  by (simp add: handleFavorite_detail_def)

subsection \<open>C2: toggling a favourite\<close>

text \<open>
  Claim C2. \<open>handleFavorite\<close>, on either page, decides membership by \<open>id\<close> alone. When
  an entry of the collection has the \<open>id\<close> of the record, the result is the collection
  without the entries of that \<open>id\<close>, so that a stored entry is removed also by a copy
  of the record that differs from it in other fields; otherwise the record is appended
  at the end.
\<close>

theorem C2_toggle_by_id:
  "((\<exists>fav \<in> set (favorites st). id' fav = id' p) \<longrightarrow>
      favorites (handleFavorite p st) = filter (\<lambda>fav. id' fav \<noteq> id' p) (favorites st)
      \<and> (\<forall>q \<in> set (favorites st). id' q = id' p \<longrightarrow> q \<notin> set (favorites (handleFavorite p st))))
   \<and> ((\<forall>fav \<in> set (favorites st). id' fav \<noteq> id' p) \<longrightarrow>
      favorites (handleFavorite p st) = favorites st @ [p])
   \<and> (property dst = Some p \<longrightarrow>
      favorites (handleFavorite_detail dst)
        = (if \<exists>fav \<in> set (favorites dst). id' fav = id' p
           then filter (\<lambda>fav. id' fav \<noteq> id' p) (favorites dst)
           else favorites dst @ [p]))"
  by (auto simp: favorites_handleFavorite favorites_handleFavorite_detail
      newFavorites_present newFavorites_absent)

text \<open>
  A copy of the house with another price removes the stored house; the house is appended
  to a collection that holds the flat only; on the detail page the shown house is
  removed.
\<close>

theorem C2_witness:
  "house\<lparr>price := 1\<rparr> \<noteq> house
   \<and> favorites (handleFavorite (house\<lparr>price := 1\<rparr>) (index_init [house, flat] [flat, house]))
       = [flat]
   \<and> favorites (handleFavorite house (index_init [house, flat] [flat])) = [flat, house]
   \<and> favorites (handleFavorite_detail (detail_init (Some house) [house])) = []"
proof -
  have a: "house\<lparr>price := 1\<rparr> \<noteq> house" by code_simp
  have f1: "favorites (index_init [house, flat] [flat, house]) = [flat, house]"
    and f2: "favorites (index_init [house, flat] [flat]) = [flat]"
    and f3: "favorites (detail_init (Some house) [house]) = [house]"
    and f4: "property (detail_init (Some house) [house]) = Some house"
    by (simp_all add: index_init_def detail_init_def)
  have i: "id' (house\<lparr>price := 1\<rparr>) = id' house" "id' flat \<noteq> id' house"
    by (simp_all add: house_def flat_def)
  from C2_toggle_by_id [of "index_init [house, flat] [flat, house]" "house\<lparr>price := 1\<rparr>"
      "detail_init (Some house) [house]"] i
  have 1: "favorites (handleFavorite (house\<lparr>price := 1\<rparr>) (index_init [house, flat] [flat, house]))
       = [flat]"
    by (simp add: f1)
  from C2_toggle_by_id [of "index_init [house, flat] [flat]" house
      "detail_init (Some house) [house]"] i
  have 2: "favorites (handleFavorite house (index_init [house, flat] [flat])) = [flat, house]"
    and 3: "favorites (handleFavorite_detail (detail_init (Some house) [house])) = []"
    by (simp_all add: f2 f3 f4)
  from a 1 2 3 show ?thesis by simp
qed

subsection \<open>C3: every mutation is persisted\<close>

text \<open>
  Claim C3. After \<open>handleFavorite\<close> (as toggle or as the panel's remove callback, on
  either page) the key \<open>propertyFavorites\<close> of \<open>localStorage\<close> holds the serialization
  of the whole new collection. After \<open>clearFavorites\<close> the collection is empty and the
  key is absent, not set to an empty list.
\<close>

theorem C3_mutations_are_persisted:
  "getItem ''propertyFavorites'' (localStorage (handleFavorite p st))
     = Some (JSON_stringify (favorites_json (favorites (handleFavorite p st))))
   \<and> getItem ''propertyFavorites'' (localStorage (onRemoveFavorite p st))
     = Some (JSON_stringify (favorites_json (favorites (onRemoveFavorite p st))))
   \<and> (property dst = Some p \<longrightarrow>
       getItem ''propertyFavorites'' (localStorage (handleFavorite_detail dst))
         = Some (JSON_stringify (favorites_json (favorites (handleFavorite_detail dst)))))
   \<and> favorites (clearFavorites st) = []
   \<and> getItem ''propertyFavorites'' (localStorage (clearFavorites st)) = None"
  by (simp add: handleFavorite_def onRemoveFavorite_def handleFavorite_detail_def
      clearFavorites_def getItem_def setItem_def removeItem_def)

theorem C3_witness:
  "getItem ''propertyFavorites''
      (localStorage (handleFavorite_detail (detail_init (Some flat) [house])))
     = Some (JSON_stringify (favorites_json [house, flat]))
   \<and> getItem ''propertyFavorites''
        (localStorage (clearFavorites (handleFavorite flat (index_init [house, flat] [])))) = None"
proof -
  have a: "property (detail_init (Some flat) [house]) = Some flat"
    by (simp add: detail_init_def)
  have n: "newFavorites [house] flat = [house, flat]"
    by code_simp
  have b: "favorites (handleFavorite_detail (detail_init (Some flat) [house])) = [house, flat]"
    using favorites_handleFavorite_detail [OF a] by (simp add: n detail_init_def)
  from C3_mutations_are_persisted [of flat "index_init [house, flat] []"
      "detail_init (Some flat) [house]"]
    C3_mutations_are_persisted [of flat "handleFavorite flat (index_init [house, flat] [])"
      "detail_init (Some flat) [house]"] a b
  show ?thesis by simp
qed

subsection \<open>C4: the remove callback of the favourites panel\<close>

text \<open>
  Claim C4, as amended. The callback the panel invokes to remove a favourite is
  \<open>handleFavorite\<close>. It removes the entries with the \<open>id\<close> of the record when one is
  present, which covers every record the panel passes, since it passes records of the
  collection it shows. When no entry has that \<open>id\<close> it does not leave the collection
  unchanged: it appends the record. It raises no error in either case.
\<close>

theorem C4_remove_is_toggle:
  "((\<exists>fav \<in> set (favorites st). id' fav = id' p) \<longrightarrow>
      favorites (onRemoveFavorite p st) = filter (\<lambda>fav. id' fav \<noteq> id' p) (favorites st)
      \<and> id' p \<notin> id' ` set (favorites (onRemoveFavorite p st)))
   \<and> (p \<in> set (favorites st) \<longrightarrow> p \<notin> set (favorites (onRemoveFavorite p st)))
   \<and> ((\<forall>fav \<in> set (favorites st). id' fav \<noteq> id' p) \<longrightarrow>
      favorites (onRemoveFavorite p st) = favorites st @ [p])"
proof -
  have "p \<in> set (favorites st) \<Longrightarrow>
      newFavorites (favorites st) p = filter (\<lambda>fav. id' fav \<noteq> id' p) (favorites st)"
    by (rule newFavorites_present) blast
  then show ?thesis
    by (auto simp: onRemoveFavorite_def favorites_handleFavorite
        newFavorites_present newFavorites_absent)
qed

theorem C4_witness:
  "house \<in> set (favorites (index_init [house, flat] [house, flat]))
   \<and> favorites (onRemoveFavorite house (index_init [house, flat] [house, flat])) = [flat]"
proof -
  have f: "favorites (index_init [house, flat] [house, flat]) = [house, flat]"
    by (simp add: index_init_def)
  have i: "id' flat \<noteq> id' house" by (simp add: house_def flat_def)
  from C4_remove_is_toggle [of "index_init [house, flat] [house, flat]" house] i
  show ?thesis by (simp add: f)
qed

text \<open>
  As stated the claim fails: the callback given the house, on a collection that holds the
  flat only, adds the house.
\<close>

theorem C4_counterexample:
  "favorites (index_init [house, flat] [flat]) = [flat]
   \<and> favorites (onRemoveFavorite house (index_init [house, flat] [flat])) = [flat, house]"
proof -
  have n: "newFavorites [flat] house = [flat, house]"
    by code_simp
  show ?thesis
    by (simp add: onRemoveFavorite_def favorites_handleFavorite index_init_def n)
qed

subsection \<open>C9: toggling twice\<close>

text \<open>
  Claim C9. Two toggles with the same record in succession leave the set of the \<open>id\<close>s
  of the collection as it was. The order may change: an entry that was present is
  removed and then appended at the end.
\<close>

theorem C9_toggle_twice_same_ids:
  "id' ` set (favorites (handleFavorite p (handleFavorite p st))) = id' ` set (favorites st)"
proof (cases "\<exists>fav \<in> set (favorites st). id' fav = id' p")
  case True
  then have 1: "favorites (handleFavorite p st) = filter (\<lambda>fav. id' fav \<noteq> id' p) (favorites st)"
    by (simp add: favorites_handleFavorite newFavorites_present)
  then have "\<forall>fav \<in> set (favorites (handleFavorite p st)). id' fav \<noteq> id' p"
    by simp
  then have "favorites (handleFavorite p (handleFavorite p st))
      = filter (\<lambda>fav. id' fav \<noteq> id' p) (favorites st) @ [p]"
    by (simp add: favorites_handleFavorite [of p "handleFavorite p st"] newFavorites_absent 1)
  with True show ?thesis by (auto intro: rev_image_eqI)
next
  case False
  then have 1: "favorites (handleFavorite p st) = favorites st @ [p]"
    by (simp add: favorites_handleFavorite newFavorites_absent)
  then have "\<exists>fav \<in> set (favorites (handleFavorite p st)). id' fav = id' p"
    by simp
  then have "favorites (handleFavorite p (handleFavorite p st))
      = filter (\<lambda>fav. id' fav \<noteq> id' p) (favorites st @ [p])"
    by (simp add: favorites_handleFavorite [of p "handleFavorite p st"] newFavorites_present 1)
  with False show ?thesis by (auto simp: filter_id_conv)
qed

text \<open>The house moves from the first place to the last.\<close>

theorem C9_witness:
  "favorites (handleFavorite house (handleFavorite house (index_init [house, flat] [house, flat])))
     = [flat, house]
   \<and> id' ` set [flat, house] = id' ` set (favorites (index_init [house, flat] [house, flat]))"
proof -
  have n: "newFavorites (newFavorites [house, flat] house) house = [flat, house]"
    by code_simp
  have a: "favorites (handleFavorite house (handleFavorite house
      (index_init [house, flat] [house, flat]))) = [flat, house]"
    by (simp add: favorites_handleFavorite index_init_def n)
  from C9_toggle_twice_same_ids [of house "index_init [house, flat] [house, flat]"]
  show ?thesis by (simp only: a simp_thms)
qed

subsection \<open>C5: hydration from a stored value\<close>

text \<open>
  Claim C5, as amended. A missing key, and likewise a stored empty string, leaves the
  favourites empty. Any other stored text is given to \<open>JSON.parse\<close> and the outcome is
  taken as it is: a text that is not JSON makes the effect throw \<open>SyntaxError\<close>, which
  nothing catches, and a text that is JSON becomes the favourites state whatever its
  shape. The mount effects of \<open>Index\<close> and of \<open>PropertyDetail\<close> are the same code.
\<close>

theorem C5_hydration_does_not_validate:
  "(getItem ''propertyFavorites'' ls = None \<longrightarrow> hydrate ls = Inr (JArray []))
   \<and> (getItem ''propertyFavorites'' ls = Some [] \<longrightarrow> hydrate ls = Inr (JArray []))
   \<and> (getItem ''propertyFavorites'' ls = Some v \<and> v \<noteq> [] \<longrightarrow> hydrate ls = JSON_parse v)
   \<and> (getItem ''propertyFavorites'' ls = Some v \<and> v \<noteq> [] \<and> JSON_parse v = Inl SyntaxError
        \<longrightarrow> hydrate ls = Inl SyntaxError)"
  by (simp add: hydrate_def truthy_str_def)

theorem C5_witness:
  "hydrate Map.empty = Inr (JArray [])
   \<and> getItem ''propertyFavorites'' (stored ''[]'') = Some ''[]''
   \<and> hydrate (stored ''[]'') = Inr (JArray [])
   \<and> getItem ''propertyFavorites'' (stored ''{oops'') = Some ''{oops''
   \<and> JSON_parse ''{oops'' = Inl SyntaxError
   \<and> hydrate (stored ''{oops'') = Inl SyntaxError"
proof -
  have g: "getItem ''propertyFavorites'' Map.empty = None"
    "getItem ''propertyFavorites'' (stored ''[]'') = Some ''[]''"
    "getItem ''propertyFavorites'' (stored ''{oops'') = Some ''{oops''"
    by (simp_all add: getItem_def stored_def setItem_def)
  have p: "JSON_parse ''[]'' = Inr (JArray [])" "JSON_parse ''{oops'' = Inl SyntaxError"
    by code_simp+
  from C5_hydration_does_not_validate [of Map.empty "''x''"]
    C5_hydration_does_not_validate [of "stored ''[]''" "''[]''"]
    C5_hydration_does_not_validate [of "stored ''{oops''" "''{oops''"] g p
  show ?thesis by simp
qed

text \<open>
  As stated the claim fails: for the stored text \<open>{oops\<close> hydration throws, and for
  the stored text \<open>5\<close> the favourites state becomes the number \<open>5\<close>; neither is the
  empty collection.
\<close>

theorem C5_counterexample:
  "hydrate (stored ''{oops'') = Inl SyntaxError
   \<and> hydrate (stored ''{oops'') \<noteq> Inr (JArray [])
   \<and> hydrate (stored ''5'') = Inr (JNumber ''5'')
   \<and> hydrate (stored ''5'') \<noteq> Inr (JArray [])"
proof -
  have p: "JSON_parse ''{oops'' = Inl SyntaxError" "JSON_parse ''5'' = Inr (JNumber ''5'')"
    by code_simp+
  show ?thesis
    by (simp add: hydrate_def stored_def getItem_def setItem_def truthy_str_def p)
qed

subsection \<open>C8: the lookup of the detail page\<close>

lemma foundProperty_NaN:
  "parseInt (id_or_zero rid) = NaN \<Longrightarrow> foundProperty catalog rid = None"
  by (simp add: foundProperty_def find_None_iff)

lemma foundProperty_Num:
  "parseInt (id_or_zero rid) = Num n \<Longrightarrow>
   foundProperty catalog rid = find (\<lambda>p. id' p = n) catalog"
  by (simp add: foundProperty_def)

lemma find_distinct_ids:
  "distinct (map id' catalog) \<Longrightarrow> q \<in> set catalog \<Longrightarrow>
   find (\<lambda>p. id' p = id' q) catalog = Some q"
  by (induction catalog) (auto simp: image_iff)

text \<open>
  Claim C8, as amended. The route text (with \<open>0\<close> for a missing or empty one) is
  read by \<open>parseInt\<close>. When it reads as the number \<open>n\<close> and a record of the catalog has
  the id \<open>n\<close>, the lookup returns such a record, the only one when the ids of the
  catalog are distinct; when no record has the id \<open>n\<close>, and when the text does not read
  as a number, the lookup returns \<open>null\<close>, the not-found state, and never throws. A
  missing, empty or zero id text gives \<open>null\<close> provided no record of the catalog has
  the id \<open>0\<close>.
\<close>

theorem C8_lookup_by_parsed_id:
  "(parseInt (id_or_zero rid) = Num n \<and> (\<exists>q \<in> set catalog. id' q = n) \<longrightarrow>
      (\<exists>p. foundProperty catalog rid = Some p \<and> p \<in> set catalog \<and> id' p = n))
   \<and> (parseInt (id_or_zero rid) = Num n \<and> distinct (map id' catalog)
        \<and> q \<in> set catalog \<and> id' q = n \<longrightarrow> foundProperty catalog rid = Some q)
   \<and> (parseInt (id_or_zero rid) = Num n \<and> (\<forall>q \<in> set catalog. id' q \<noteq> n) \<longrightarrow>
        foundProperty catalog rid = None)
   \<and> (parseInt (id_or_zero rid) = NaN \<longrightarrow> foundProperty catalog rid = None)
   \<and> ((rid = None \<or> rid = Some [] \<or> parseInt (id_or_zero rid) = Num 0)
        \<and> (\<forall>q \<in> set catalog. id' q \<noteq> 0) \<longrightarrow> foundProperty catalog rid = None)"
proof -
  have z: "parseInt ''0'' = Num 0" by code_simp
  have 1: "parseInt (id_or_zero rid) = Num n \<and> (\<exists>q \<in> set catalog. id' q = n) \<longrightarrow>
      (\<exists>p. foundProperty catalog rid = Some p \<and> p \<in> set catalog \<and> id' p = n)"
  proof
    assume a: "parseInt (id_or_zero rid) = Num n \<and> (\<exists>q \<in> set catalog. id' q = n)"
    then have "find (\<lambda>p. id' p = n) catalog \<noteq> None"
      by (auto simp: find_None_iff)
    then obtain p where p: "find (\<lambda>p. id' p = n) catalog = Some p" by blast
    then have "p \<in> set catalog \<and> id' p = n"
      by (auto simp: find_Some_iff)
    with a p show "\<exists>p. foundProperty catalog rid = Some p \<and> p \<in> set catalog \<and> id' p = n"
      by (simp add: foundProperty_Num)
  qed
  have 2: "parseInt (id_or_zero rid) = Num n \<and> distinct (map id' catalog)
        \<and> q \<in> set catalog \<and> id' q = n \<longrightarrow> foundProperty catalog rid = Some q"
    using find_distinct_ids [of catalog q] by (auto simp: foundProperty_Num)
  have 3: "parseInt (id_or_zero rid) = Num n \<and> (\<forall>q \<in> set catalog. id' q \<noteq> n) \<longrightarrow>
        foundProperty catalog rid = None"
    by (auto simp: foundProperty_Num find_None_iff)
  have 4: "parseInt (id_or_zero rid) = NaN \<longrightarrow> foundProperty catalog rid = None"
    by (simp add: foundProperty_NaN)
  have 5: "(rid = None \<or> rid = Some [] \<or> parseInt (id_or_zero rid) = Num 0)
        \<and> (\<forall>q \<in> set catalog. id' q \<noteq> 0) \<longrightarrow> foundProperty catalog rid = None"
  proof
    assume a: "(rid = None \<or> rid = Some [] \<or> parseInt (id_or_zero rid) = Num 0)
        \<and> (\<forall>q \<in> set catalog. id' q \<noteq> 0)"
    then have "parseInt (id_or_zero rid) = Num 0"
      by (auto simp: id_or_zero_def truthy_str_def z)
    with a show "foundProperty catalog rid = None"
      by (simp add: foundProperty_Num find_None_iff)
  qed
  from 1 2 3 4 5 show ?thesis by blast
qed

theorem C8_witness:
  "parseInt (id_or_zero (Some ''2'')) = Num 2
   \<and> distinct (map id' [house, flat]) \<and> flat \<in> set [house, flat] \<and> id' flat = 2
   \<and> foundProperty [house, flat] (Some ''2'') = Some flat
   \<and> parseInt (id_or_zero (Some ''99'')) = Num 99
   \<and> foundProperty [house, flat] (Some ''99'') = None
   \<and> parseInt (id_or_zero (Some ''abc'')) = NaN
   \<and> foundProperty [house, flat] (Some ''abc'') = None
   \<and> foundProperty [house, flat] None = None
   \<and> foundProperty [house, flat] (Some ''0'') = None"
proof -
  have a: "parseInt (id_or_zero (Some ''2'')) = Num 2"
    "parseInt (id_or_zero (Some ''99'')) = Num 99"
    "parseInt (id_or_zero (Some ''abc'')) = NaN"
    "parseInt (id_or_zero (Some ''0'')) = Num 0"
    by code_simp+
  have b: "distinct (map id' [house, flat])" "id' flat = 2" "id' house = 1"
    by (simp_all add: house_def flat_def)
  from C8_lookup_by_parsed_id [of "Some ''2''" 2 "[house, flat]" flat]
    C8_lookup_by_parsed_id [of "Some ''99''" 99 "[house, flat]" flat]
    C8_lookup_by_parsed_id [of "Some ''abc''" 0 "[house, flat]" flat]
    C8_lookup_by_parsed_id [of None 0 "[house, flat]" flat]
    C8_lookup_by_parsed_id [of "Some ''0''" 0 "[house, flat]" flat] a b
  show ?thesis by simp
qed

text \<open>
  As stated, for every catalog, the claim fails on a catalog with a record of id \<open>0\<close>:
  the id text \<open>0\<close>, and a missing id text, find that record.
\<close>

theorem C8_counterexample:
  "foundProperty [house\<lparr>id' := 0\<rparr>, flat] (Some ''0'') = Some (house\<lparr>id' := 0\<rparr>)
   \<and> foundProperty [house\<lparr>id' := 0\<rparr>, flat] None = Some (house\<lparr>id' := 0\<rparr>)"
  by code_simp

end
